theory Spec2Isabelle
  imports Complex_Main "HOL-Library.AList"
begin

section \<open>The tensor kernel used by the circuit class\<close>

text \<open>
  The class \<open>QCircuit\<close> of \<open>qcircuit.hpp\<close> is written on top of a tensor library
  (\<open>itensor/all.h\<close>).  The part of its interface that the class calls is modelled here:
  named indices, tensors as an index list with an element store, element set and get,
  contraction over the shared indices, priming, the Frobenius norm and division by a real.
  Doubles are modelled by exact reals and complex numbers, so rounding is not modelled,
  and a division by zero gives 0 here where the double division gives \<open>inf\<close> or \<open>nan\<close>.
  The kernel's own failures (a \<open>set\<close> that does not name every index, an index value out of
  range) are not modelled.  The singular value decomposition is never computed here:
  every operation that needs it takes the kernel's \<open>svd\<close> as an argument, and what is proved
  of such an operation holds for every \<open>svd\<close>.
\<close>

datatype index = Index (id_of: nat) (dim: nat) (tags: string) (primeLevel: nat)

text \<open>\<open>prime(i)\<close>: the same index, one prime level higher.\<close>

definition prime :: "index \<Rightarrow> index" where
  "prime i = Index (id_of i) (dim i) (tags i) (Suc (primeLevel i))"

text \<open>An \<open>IndexVal\<close>, written \<open>s(1)\<close> or \<open>s = 1\<close> in the source.\<close>

type_synonym indexval = "index \<times> nat"

text \<open>
  A tensor: its indices in order, and its elements keyed by the values of the indices in
  that order.  An element that is not stored is zero.
\<close>

datatype itensor = ITensor (inds: "index list") (store: "(nat list \<times> complex) list")

text \<open>\<open>ITensor U;\<close> the default-constructed tensor.\<close>

definition ITensor_default :: itensor where
  "ITensor_default = ITensor [] []"

definition val_of :: "indexval list \<Rightarrow> index \<Rightarrow> nat" where
  "val_of ivs i = (case map_of ivs i of None \<Rightarrow> 0 | Some v \<Rightarrow> v)"

definition key_of :: "itensor \<Rightarrow> indexval list \<Rightarrow> nat list" where
  "key_of T ivs = map (val_of ivs) (inds T)"

text \<open>\<open>T.set(iv1, ..., val)\<close> and \<open>T.elt(iv1, ...)\<close>; the index values may come in any order.\<close>

definition set_elt :: "itensor \<Rightarrow> indexval list \<Rightarrow> complex \<Rightarrow> itensor" where
  "set_elt T ivs v = ITensor (inds T) (AList.update (key_of T ivs) v (store T))"

definition elt :: "itensor \<Rightarrow> indexval list \<Rightarrow> complex" where
  "elt T ivs = (case map_of (store T) (key_of T ivs) of None \<Rightarrow> 0 | Some v \<Rightarrow> v)"

text \<open>All value tuples of a list of indices; index values run from 1 to the dimension.\<close>

fun assignments :: "index list \<Rightarrow> nat list list" where
  "assignments [] = [[]]"
| "assignments (i # is) = concat (map (\<lambda>v. map ((#) v) (assignments is)) [1..<Suc (dim i)])"

text \<open>
  \<open>A * B\<close>: contraction over the indices the two tensors share.  The result carries the
  unshared indices of \<open>A\<close>, then those of \<open>B\<close>.
\<close>

definition mult :: "itensor \<Rightarrow> itensor \<Rightarrow> itensor" where
  "mult A B =
     (let common = filter (\<lambda>i. i \<in> set (inds B)) (inds A);
          rest = filter (\<lambda>i. i \<notin> set (inds B)) (inds A) @ filter (\<lambda>i. i \<notin> set (inds A)) (inds B)
      in ITensor rest
           (map (\<lambda>vs. (vs, sum_list (map (\<lambda>ws. elt A (zip rest vs @ zip common ws) *
                                                 elt B (zip rest vs @ zip common ws))
                                        (assignments common))))
                (assignments rest)))"


definition primeT_inds :: "itensor \<Rightarrow> index list \<Rightarrow> itensor" where
  "primeT_inds T js = ITensor (map (\<lambda>i. if i \<in> set js then prime i else i) (inds T)) (store T)"

text \<open>\<open>norm(T)\<close>, the Frobenius norm, and \<open>T /= r\<close>.\<close>

definition normT :: "itensor \<Rightarrow> real" where
  "normT T = sqrt (sum_list (map (\<lambda>kv. (cmod (snd kv))\<^sup>2) (store T)))"

definition divT :: "itensor \<Rightarrow> real \<Rightarrow> itensor" where
  "divT T r = ITensor (inds T) (map (\<lambda>kv. (fst kv, snd kv / of_real r)) (store T))"

text \<open>\<open>commonIndex(A, B)\<close>: the first index of \<open>A\<close> that \<open>B\<close> has too, else the default index.\<close>

definition commonIndex :: "itensor \<Rightarrow> itensor \<Rightarrow> index" where
  "commonIndex A B =
     (case filter (\<lambda>i. i \<in> set (inds B)) (inds A) of [] \<Rightarrow> Index 0 0 [] 0 | i # _ \<Rightarrow> i)"

text \<open>
  The kernel's \<open>svd(T, U, S, V, args)\<close>.  It reads the tensor \<open>T\<close> and the index templates
  left in \<open>U\<close> and \<open>V\<close> (the indices of one side; the side whose template is the
  default-constructed tensor gets the other indices of \<open>T\<close>), and returns the three
  factors and the spectrum (the truncation error and the singular values kept).  \<open>args\<close>
  carries the truncation parameters.
\<close>

record args =
  Cutoff :: real
  MaxDim :: nat

record spectrum =
  truncerr :: real
  eigsKept :: "real list"

type_synonym svd_fn =
  "itensor \<Rightarrow> itensor \<Rightarrow> itensor \<Rightarrow> itensor \<Rightarrow> args \<Rightarrow> itensor \<times> itensor \<times> itensor \<times> spectrum"

section \<open>The circuit topology\<close>

text \<open>
  Modelled from the spec: the class \<open>CircuitTopology\<close> (\<open>circuit_topology.hpp\<close>, which is
  not among the sources).  Only its interface is used, taken as it stands in the spec:
  \<open>numberOfBits()\<close>, \<open>numberOfLinks()\<close> and \<open>neighborsOf(site)\<close>, the ordered list of
  \<open>{site, link}\<close> pairs of a site.  Nothing is assumed about a topology here; what an
  operation needs of it is a hypothesis of that operation's theorem.
\<close>

record neighbor =
  site :: nat
  link :: nat

record circuit_topology =
  numberOfBits :: nat
  numberOfLinks :: nat
  neighborsOf :: "nat \<Rightarrow> neighbor list"

section \<open>Failures\<close>

text \<open>
  A failed \<open>assert\<close> stops the program with a diagnostic (the asserts are compiled in).
  Reading or writing a \<open>std::vector\<close> outside its range, and dereferencing the end iterator
  that \<open>std::find_if\<close> returns when nothing matches, are undefined in the source; the model
  stops there and says which vector and which position.  \<open>NotScalar\<close> is the kernel's error
  when \<open>cplx()\<close> is asked of a tensor that still has indices.
\<close>

datatype error =
    AssertFailed string
  | OutOfRange string nat
  | EndIterator
  | NotScalar

definition ebind :: "error + 'a \<Rightarrow> ('a \<Rightarrow> error + 'b) \<Rightarrow> error + 'b" where
  "ebind m f = (case m of Inl e \<Rightarrow> Inl e | Inr x \<Rightarrow> f x)"

definition vec_at :: "string \<Rightarrow> 'a list \<Rightarrow> nat \<Rightarrow> error + 'a" where
  "vec_at nm xs i = (if i < length xs then Inr (xs ! i) else Inl (OutOfRange nm i))"

definition vec_upd :: "string \<Rightarrow> 'a list \<Rightarrow> nat \<Rightarrow> 'a \<Rightarrow> error + 'a list" where
  "vec_upd nm xs i x = (if i < length xs then Inr (xs[i := x]) else Inl (OutOfRange nm i))"

subsection \<open>Two more operations of the kernel\<close>



section \<open>The class QCircuit\<close>

record qcircuit =
  topology :: circuit_topology
  a_link :: "index list"
  s_site :: "index list"
  M_site :: "itensor list"
  Psi :: itensor
  cursor :: "nat \<times> nat"

subsection \<open>The constructor\<close>

text \<open>
  The body of the loop that initializes the tensor of site \<open>i\<close>: a switch on the number of
  neighbours.  The arguments of \<open>emplace_back\<close> are read from left to right.
\<close>

definition init_tensor ::
  "circuit_topology \<Rightarrow> index list \<Rightarrow> index list \<Rightarrow> (complex \<times> complex) list \<Rightarrow> nat \<Rightarrow> error + itensor" where
  "init_tensor topo s a init_qbits i =
     (case neighborsOf topo i of
        [n0] \<Rightarrow>
          ebind (vec_at ''s'' s i) (\<lambda>si.
          ebind (vec_at ''a'' a (link n0)) (\<lambda>a0.
          ebind (vec_at ''init_qbits'' init_qbits i) (\<lambda>q.
            Inr (set_elt (set_elt (ITensor [si, a0] [])
                   [(si, 1), (a0, 1)] (fst q))
                   [(si, 2), (a0, 1)] (snd q)))))
      | [n0, n1] \<Rightarrow>
          ebind (vec_at ''s'' s i) (\<lambda>si.
          ebind (vec_at ''a'' a (link n0)) (\<lambda>a0.
          ebind (vec_at ''a'' a (link n1)) (\<lambda>a1.
          ebind (vec_at ''init_qbits'' init_qbits i) (\<lambda>q.
            Inr (set_elt (set_elt (ITensor [si, a0, a1] [])
                   [(si, 1), (a0, 1), (a1, 1)] (fst q))
                   [(si, 2), (a0, 1), (a1, 1)] (snd q))))))
      | [n0, n1, n2] \<Rightarrow>
          ebind (vec_at ''s'' s i) (\<lambda>si.
          ebind (vec_at ''a'' a (link n0)) (\<lambda>a0.
          ebind (vec_at ''a'' a (link n1)) (\<lambda>a1.
          ebind (vec_at ''a'' a (link n2)) (\<lambda>a2.
          ebind (vec_at ''init_qbits'' init_qbits i) (\<lambda>q.
            Inr (set_elt (set_elt (ITensor [si, a0, a1, a2] [])
                   [(si, 1), (a0, 1), (a1, 1), (a2, 1)] (fst q))
                   [(si, 2), (a0, 1), (a1, 1), (a2, 1)] (snd q)))))))
      | _ \<Rightarrow> Inl (AssertFailed ''false''))"

text \<open>The loop \<open>for(size_t i = 0; i < this->size(); i++)\<close>, over the sites still to do.\<close>

fun init_tensors ::
  "circuit_topology \<Rightarrow> index list \<Rightarrow> index list \<Rightarrow> (complex \<times> complex) list \<Rightarrow> nat list
     \<Rightarrow> error + itensor list" where
  "init_tensors topo s a init_qbits [] = Inr []"
| "init_tensors topo s a init_qbits (i # sites) =
     ebind (init_tensor topo s a init_qbits i) (\<lambda>t.
     ebind (init_tensors topo s a init_qbits sites) (\<lambda>ts. Inr (t # ts)))"

text \<open>
  The constructor.  A new index gets a new id from the kernel; the ids are drawn here
  from a counter \<open>idgen\<close>, the links first and the sites after them.  A non-empty
  \<open>physical_indices\<close> is taken as the site indices as it is.
\<close>

definition QCircuit ::
  "nat \<Rightarrow> circuit_topology \<Rightarrow> (complex \<times> complex) list \<Rightarrow> index list \<Rightarrow> error + qcircuit" where
  "QCircuit idgen topo init_qbits physical_indices =
     (let a = map (\<lambda>i. Index (idgen + i) 1 ''LinkInd'' 0) [0..<numberOfLinks topo];
          s = (if physical_indices = []
               then map (\<lambda>i. Index (idgen + numberOfLinks topo + i) 2 ''SiteInd'' 0)
                      [0..<numberOfBits topo]
               else physical_indices)
      in ebind (init_tensors topo s a init_qbits [0..<numberOfBits topo]) (\<lambda>M.
         ebind (vec_at ''M'' M 0) (\<lambda>M0.
         ebind (vec_at ''M'' M 1) (\<lambda>M1.
           Inr \<lparr>topology = topo, a_link = a, s_site = s, M_site = M,
                Psi = mult M0 M1, cursor = (0, 1)\<rparr>))))"

subsection \<open>decomposePsi and shift_to\<close>

text \<open>
  The switch on \<open>newlist.size()\<close> that builds the index template of one side of the SVD:
  the site index of \<open>i\<close>, then the link indices of the neighbours left in \<open>newlist\<close>.  The
  source writes this switch three times, for \<open>U\<close> in \<open>decomposePsi\<close> and in the second
  branch of \<open>shift_to\<close>, and for \<open>V\<close> in the first branch of \<open>shift_to\<close>.
\<close>

definition template :: "index list \<Rightarrow> index list \<Rightarrow> nat \<Rightarrow> neighbor list \<Rightarrow> error + itensor" where
  "template s a i newlist =
     (case newlist of
        [] \<Rightarrow>
          ebind (vec_at ''s'' s i) (\<lambda>si. Inr (ITensor [si] []))
      | [n0] \<Rightarrow>
          ebind (vec_at ''s'' s i) (\<lambda>si.
          ebind (vec_at ''a'' a (link n0)) (\<lambda>a0. Inr (ITensor [si, a0] [])))
      | [n0, n1] \<Rightarrow>
          ebind (vec_at ''s'' s i) (\<lambda>si.
          ebind (vec_at ''a'' a (link n0)) (\<lambda>a0.
          ebind (vec_at ''a'' a (link n1)) (\<lambda>a1. Inr (ITensor [si, a0, a1] []))))
      | _ \<Rightarrow> Inl (AssertFailed ''false''))"

text \<open>
  \<open>decomposePsi\<close> returns nothing: the result is the circuit after the call, or the
  failure.  The spectrum that \<open>svd\<close> returns is bound to a local variable and dropped.
\<close>

definition decomposePsi :: "svd_fn \<Rightarrow> args \<Rightarrow> qcircuit \<Rightarrow> error + qcircuit" where
  "decomposePsi svd args c =
     (let first = fst (cursor c); second = snd (cursor c);
          list = neighborsOf (topology c) first
      in case find (\<lambda>x. site x = second) list of
           None \<Rightarrow> Inl EndIterator
         | Some second_itr \<Rightarrow>
             (let link_ind = link second_itr;
                  newlist = filter (\<lambda>t. site t \<noteq> second) list
              in ebind (template (s_site c) (a_link c) first newlist) (\<lambda>U0.
                 case svd (Psi c) U0 ITensor_default ITensor_default args of
                   (U, S0, V, spec) \<Rightarrow>
                     ebind (vec_upd ''a'' (a_link c) link_ind (commonIndex U S0)) (\<lambda>a'.
                     let S = divT S0 (normT S0) in
                     ebind (vec_upd ''M'' (M_site c) first U) (\<lambda>M1.
                     ebind (vec_upd ''M'' M1 second (mult S V)) (\<lambda>M2.
                       Inr (c\<lparr>a_link := a', M_site := M2\<rparr>)))))))"

text \<open>\<open>i.site == ind\<close> for some entry \<open>i\<close> of \<open>neighborsOf(j)\<close>: the two search loops of \<open>shift_to\<close>.\<close>

definition has_neighbor :: "circuit_topology \<Rightarrow> nat \<Rightarrow> nat \<Rightarrow> bool" where
  "has_neighbor topo j ind = list_ex (\<lambda>i. site i = ind) (neighborsOf topo j)"

text \<open>
  The loop \<open>link_ind = 0; for(i : list) if(i.site == other) link_ind = i.link;\<close>: the link
  of the last entry that matches.
\<close>

definition find_link :: "neighbor list \<Rightarrow> nat \<Rightarrow> nat" where
  "find_link list other = fold (\<lambda>i link_ind. if site i = other then link i else link_ind) list 0"

definition shift_to :: "svd_fn \<Rightarrow> nat \<Rightarrow> args \<Rightarrow> qcircuit \<Rightarrow> error + (spectrum \<times> qcircuit)" where
  "shift_to svd ind args c =
     (let first = fst (cursor c); second = snd (cursor c) in
      if ind = first then Inl (AssertFailed ''ind != cursor.first'')
      else if ind = second then Inl (AssertFailed ''ind != cursor.second'')
      else
        let flag1 = (if has_neighbor (topology c) first ind then 1 else (0::nat));
            flag = (if has_neighbor (topology c) second ind then 2 else flag1)
        in
        if flag = 1 then
          (let list = neighborsOf (topology c) second;
               link_ind = find_link list first;
               newlist = filter (\<lambda>t. site t \<noteq> first) list
           in ebind (template (s_site c) (a_link c) second newlist) (\<lambda>V0.
              case svd (Psi c) ITensor_default ITensor_default V0 args of
                (U, S0, V, spec) \<Rightarrow>
                  ebind (vec_upd ''a'' (a_link c) link_ind (commonIndex S0 V)) (\<lambda>a'.
                  let S = divT S0 (normT S0) in
                  ebind (vec_upd ''M'' (M_site c) second V) (\<lambda>M'.
                  ebind (vec_at ''M'' M' ind) (\<lambda>Mind.
                    Inr (spec, c\<lparr>a_link := a', M_site := M',
                                 Psi := mult (mult Mind U) S,
                                 cursor := (ind, first)\<rparr>))))))
        else if flag = 2 then
          (let list = neighborsOf (topology c) first;
               link_ind = find_link list second;
               newlist = filter (\<lambda>t. site t \<noteq> second) list
           in ebind (template (s_site c) (a_link c) first newlist) (\<lambda>U0.
              case svd (Psi c) U0 ITensor_default ITensor_default args of
                (U, S0, V, spec) \<Rightarrow>
                  ebind (vec_upd ''a'' (a_link c) link_ind (commonIndex U S0)) (\<lambda>a'.
                  let S = divT S0 (normT S0) in
                  ebind (vec_upd ''M'' (M_site c) first U) (\<lambda>M'.
                  ebind (vec_at ''M'' M' ind) (\<lambda>Mind.
                    Inr (spec, c\<lparr>a_link := a', M_site := M',
                                 Psi := mult (mult S V) Mind,
                                 cursor := (second, ind)\<rparr>))))))
        else Inl (AssertFailed ''false && cannot move to this direction''))"

subsection \<open>apply\<close>

text \<open>
  \<open>apply(op)\<close>.  The loop over \<open>op.inds()\<close> reads \<open>s[cursor.first]\<close> first and, where the
  comparison with it fails, \<open>s[cursor.second]\<close>; the last statement reads both.  The two
  reads are done once here, in that order.
\<close>

definition apply_op :: "itensor \<Rightarrow> qcircuit \<Rightarrow> error + qcircuit" where
  "apply_op op c =
     (if length (inds op) \<noteq> 4 then Inl (AssertFailed ''op.inds().size() == 4'')
      else
        ebind (vec_at ''s'' (s_site c) (fst (cursor c))) (\<lambda>s1.
        ebind (vec_at ''s'' (s_site c) (snd (cursor c))) (\<lambda>s2.
          if list_all (\<lambda>elem. elem = s1 \<or> elem = s2 \<or> elem = prime s1 \<or> elem = prime s2) (inds op)
          then Inr (c\<lparr>Psi := mult op (primeT_inds (Psi c) [s1, s2])\<rparr>)
          else Inl (AssertFailed
                 ''elem == s[cursor.first] || elem == s[cursor.second] || elem == prime(s[cursor.first]) || elem == prime(s[cursor.second])''))))"

subsection \<open>normalize, primeAll and Mref\<close>




section \<open>Gates\<close>


text \<open>
  Pauli y, \<open>Y\<close> of \<open>qcircuit.hpp\<close>: a tensor over \<open>s\<close> and \<open>prime(s)\<close> with
  \<open>ret.set(s(1), prime(s)(2), -1_i)\<close> and \<open>ret.set(s(2), prime(s)(1), 1_i)\<close>.
\<close>

definition Y :: "index \<Rightarrow> itensor" where
  "Y s = set_elt (set_elt (ITensor [s, prime s] []) [(s, 1), (prime s, 2)] (- \<i>))
                 [(s, 2), (prime s, 1)] \<i>"

section \<open>The free function overlap\<close>



section \<open>Well-formed circuits\<close>

text \<open>
  What the operations need of the two sites under the cursor: at most three neighbours,
  no neighbour listed twice, and every entry within the range of the sites and links.
\<close>

definition site_ok :: "circuit_topology \<Rightarrow> nat \<Rightarrow> bool" where
  "site_ok topo i \<longleftrightarrow>
     length (neighborsOf topo i) \<le> 3 \<and>
     distinct (map site (neighborsOf topo i)) \<and>
     list_all (\<lambda>n. site n < numberOfBits topo \<and> link n < numberOfLinks topo) (neighborsOf topo i)"

text \<open>The link id that site \<open>i\<close> records for its neighbour \<open>j\<close>.\<close>

definition link_between :: "circuit_topology \<Rightarrow> nat \<Rightarrow> nat \<Rightarrow> nat option" where
  "link_between topo i j = map_option link (find (\<lambda>n. site n = j) (neighborsOf topo i))"

text \<open>
  The contracted configuration with a valid cursor: the vectors have one entry per link
  and per site, and the two cursor sites are neighbours of each other over one link.
\<close>

definition contracted :: "qcircuit \<Rightarrow> bool" where
  "contracted c \<longleftrightarrow>
     length (a_link c) = numberOfLinks (topology c) \<and>
     length (s_site c) = numberOfBits (topology c) \<and>
     length (M_site c) = numberOfBits (topology c) \<and>
     fst (cursor c) < numberOfBits (topology c) \<and>
     snd (cursor c) < numberOfBits (topology c) \<and>
     site_ok (topology c) (fst (cursor c)) \<and>
     site_ok (topology c) (snd (cursor c)) \<and>
     link_between (topology c) (fst (cursor c)) (snd (cursor c)) \<noteq> None \<and>
     link_between (topology c) (snd (cursor c)) (fst (cursor c)) =
       link_between (topology c) (fst (cursor c)) (snd (cursor c))"

text \<open>
  \<open>Psi\<close> carries the two site indices of the cursor and neither of their primes, and the
  two site indices and their primes are four different indices.
\<close>

definition Psi_has_sites :: "qcircuit \<Rightarrow> bool" where
  "Psi_has_sites c \<longleftrightarrow>
     (let s1 = s_site c ! fst (cursor c); s2 = s_site c ! snd (cursor c)
      in s1 \<noteq> s2 \<and> s1 \<noteq> prime s2 \<and> s2 \<noteq> prime s1 \<and>
         s1 \<in> set (inds (Psi c)) \<and> s2 \<in> set (inds (Psi c)) \<and>
         prime s1 \<notin> set (inds (Psi c)) \<and> prime s2 \<notin> set (inds (Psi c)))"

text \<open>
  What the constructor needs of a topology: at least two sites, and every site with one
  to three neighbours whose links are within range.
\<close>

definition wf_topology :: "circuit_topology \<Rightarrow> bool" where
  "wf_topology topo \<longleftrightarrow>
     2 \<le> numberOfBits topo \<and>
     list_all (\<lambda>i. 1 \<le> length (neighborsOf topo i) \<and> length (neighborsOf topo i) \<le> 3 \<and>
                   list_all (\<lambda>n. link n < numberOfLinks topo) (neighborsOf topo i))
              [0..<numberOfBits topo]"

section \<open>Isometric factors and the canonical form of a chain\<close>








section \<open>Two circuits\<close>

text \<open>Two sites joined by one link.\<close>

definition topo2 :: circuit_topology where
  "topo2 = \<lparr>numberOfBits = 2, numberOfLinks = 1,
            neighborsOf = (\<lambda>i. if i = 0 then [\<lparr>site = 1, link = 0\<rparr>]
                                else if i = 1 then [\<lparr>site = 0, link = 0\<rparr>] else [])\<rparr>"

text \<open>The chain 2 - 0 - 1 - 3, with link 0 between 0 and 1, link 1 between 0 and 2 and link 2 between 1 and 3.\<close>

definition chain4 :: circuit_topology where
  "chain4 = \<lparr>numberOfBits = 4, numberOfLinks = 3,
             neighborsOf = (\<lambda>i. if i = 0 then [\<lparr>site = 1, link = 0\<rparr>, \<lparr>site = 2, link = 1\<rparr>]
                                 else if i = 1 then [\<lparr>site = 0, link = 0\<rparr>, \<lparr>site = 3, link = 2\<rparr>]
                                 else if i = 2 then [\<lparr>site = 0, link = 1\<rparr>]
                                 else if i = 3 then [\<lparr>site = 1, link = 2\<rparr>] else [])\<rparr>"

text \<open>
  The circuit that the constructor builds on \<open>topo2\<close> from the amplitudes of \<open>|0>\<close> and
  \<open>|0>\<close>, with the id counter at 0.
\<close>

definition pair_init :: qcircuit where
  "pair_init =
     \<lparr>topology = topo2,
      a_link = [Index 0 1 ''LinkInd'' 0],
      s_site = [Index 1 2 ''SiteInd'' 0, Index 2 2 ''SiteInd'' 0],
      M_site = [ITensor [Index 1 2 ''SiteInd'' 0, Index 0 1 ''LinkInd'' 0] [([1, 1], 1), ([2, 1], 0)],
                ITensor [Index 2 2 ''SiteInd'' 0, Index 0 1 ''LinkInd'' 0] [([1, 1], 1), ([2, 1], 0)]],
      Psi = ITensor [Index 1 2 ''SiteInd'' 0, Index 2 2 ''SiteInd'' 0]
              [([1, 1], 1), ([1, 2], 0), ([2, 1], 0), ([2, 2], 0)],
      cursor = (0, 1)\<rparr>"

text \<open>
  The rotation that takes \<open>|00>\<close> to \<open>3/5 |00> + 4/5 |11>\<close> and \<open>|11>\<close> to
  \<open>-4/5 |00> + 3/5 |11>\<close>, and leaves \<open>|01>\<close> and \<open>|10>\<close> as they are: a unitary gate on the two
  sites of \<open>pair_init\<close>, with the unprimed indices for the result and the primed ones
  for the argument, as \<open>apply\<close> contracts them.
\<close>

definition pair_gate :: itensor where
  "pair_gate =
     ITensor [Index 1 2 ''SiteInd'' 0, Index 2 2 ''SiteInd'' 0,
              Index 1 2 ''SiteInd'' 1, Index 2 2 ''SiteInd'' 1]
       [([1, 1, 1, 1], 3 / 5), ([2, 2, 1, 1], 4 / 5),
        ([1, 1, 2, 2], - (4 / 5)), ([2, 2, 2, 2], 3 / 5),
        ([1, 2, 1, 2], 1), ([2, 1, 2, 1], 1)]"

text \<open>The circuit after \<open>apply(pair_gate)\<close>: \<open>Psi\<close> is \<open>3/5 |00> + 4/5 |11>\<close>, of norm 1.\<close>

definition pair_state :: qcircuit where
  "pair_state =
     pair_init\<lparr>Psi := ITensor [Index 1 2 ''SiteInd'' 0, Index 2 2 ''SiteInd'' 0]
                          [([1, 1], 3 / 5), ([1, 2], 0), ([2, 1], 0), ([2, 2], 4 / 5)]\<rparr>"

text \<open>
  The singular values of that \<open>Psi\<close> are \<open>4/5\<close> and \<open>3/5\<close>.  With at most one singular value
  kept, the decomposition is \<open>|1> * 4/5 * |1>\<close> over two new bond indices of dimension 1 and
  the weight \<open>9/25\<close> is discarded.  \<open>svd_pair sp\<close> is a kernel whose \<open>svd\<close> returns these
  factors and reports the spectrum \<open>sp\<close>.
\<close>

definition pair_U :: itensor where
  "pair_U = ITensor [Index 1 2 ''SiteInd'' 0, Index 7 1 ''Link,U'' 0] [([1, 1], 0), ([2, 1], 1)]"

definition pair_S :: itensor where
  "pair_S = ITensor [Index 7 1 ''Link,U'' 0, Index 8 1 ''Link,V'' 0] [([1, 1], 4 / 5)]"

definition pair_V :: itensor where
  "pair_V = ITensor [Index 8 1 ''Link,V'' 0, Index 2 2 ''SiteInd'' 0] [([1, 1], 0), ([1, 2], 1)]"

definition svd_pair :: "spectrum \<Rightarrow> svd_fn" where
  "svd_pair sp T U0 S0 V0 args = (pair_U, pair_S, pair_V, sp)"

text \<open>The circuit after \<open>decomposePsi\<close> with that kernel.\<close>

definition pair_after :: qcircuit where
  "pair_after =
     pair_state\<lparr>a_link := [Index 7 1 ''Link,U'' 0],
                M_site := [pair_U,
                           ITensor [Index 7 1 ''Link,U'' 0, Index 2 2 ''SiteInd'' 0]
                             [([1, 1], 0), ([1, 2], 1)]]\<rparr>"

text \<open>
  The circuit that the constructor builds on \<open>chain4\<close> from the amplitudes of
  \<open>|0>, |0>, |1>, |0>\<close>, with the id counter at 0.
\<close>

definition chain_state :: qcircuit where
  "chain_state =
     \<lparr>topology = chain4,
      a_link = [Index 0 1 ''LinkInd'' 0, Index 1 1 ''LinkInd'' 0, Index 2 1 ''LinkInd'' 0],
      s_site = [Index 3 2 ''SiteInd'' 0, Index 4 2 ''SiteInd'' 0,
                Index 5 2 ''SiteInd'' 0, Index 6 2 ''SiteInd'' 0],
      M_site = [ITensor [Index 3 2 ''SiteInd'' 0, Index 0 1 ''LinkInd'' 0, Index 1 1 ''LinkInd'' 0]
                  [([1, 1, 1], 1), ([2, 1, 1], 0)],
                ITensor [Index 4 2 ''SiteInd'' 0, Index 0 1 ''LinkInd'' 0, Index 2 1 ''LinkInd'' 0]
                  [([1, 1, 1], 1), ([2, 1, 1], 0)],
                ITensor [Index 5 2 ''SiteInd'' 0, Index 1 1 ''LinkInd'' 0] [([1, 1], 0), ([2, 1], 1)],
                ITensor [Index 6 2 ''SiteInd'' 0, Index 2 1 ''LinkInd'' 0] [([1, 1], 1), ([2, 1], 0)]],
      Psi = ITensor [Index 3 2 ''SiteInd'' 0, Index 1 1 ''LinkInd'' 0,
                     Index 4 2 ''SiteInd'' 0, Index 2 1 ''LinkInd'' 0]
              [([1, 1, 1, 1], 1), ([1, 1, 2, 1], 0), ([2, 1, 1, 1], 0), ([2, 1, 2, 1], 0)],
      cursor = (0, 1)\<rparr>"

text \<open>
  The decomposition of that \<open>Psi\<close> between the side of site 0 and the side of site 1, over
  two new bond indices of dimension 1, and a kernel whose \<open>svd\<close> returns it.
\<close>

definition chain_U :: itensor where
  "chain_U = ITensor [Index 3 2 ''SiteInd'' 0, Index 1 1 ''LinkInd'' 0, Index 7 1 ''Link,U'' 0]
               [([1, 1, 1], 1), ([2, 1, 1], 0)]"

definition chain_S :: itensor where
  "chain_S = ITensor [Index 7 1 ''Link,U'' 0, Index 8 1 ''Link,V'' 0] [([1, 1], 1)]"

definition chain_V :: itensor where
  "chain_V = ITensor [Index 8 1 ''Link,V'' 0, Index 4 2 ''SiteInd'' 0, Index 2 1 ''LinkInd'' 0]
               [([1, 1, 1], 1), ([1, 2, 1], 0)]"

definition svd_chain :: svd_fn where
  "svd_chain T U0 S0 V0 args = (chain_U, chain_S, chain_V, \<lparr>truncerr = 0, eigsKept = [1]\<rparr>)"

text \<open>A gate on the two cursor sites of \<open>chain_state\<close>.\<close>

definition chain_gate :: itensor where
  "chain_gate = mult (Y (Index 3 2 ''SiteInd'' 0)) (Y (Index 4 2 ''SiteInd'' 0))"

definition args0 :: args where
  "args0 = \<lparr>Cutoff = 0, MaxDim = 1\<rparr>"

section \<open>A chain of three sites\<close>

text \<open>The chain 0 - 1 - 2, with link 0 between 0 and 1 and link 1 between 1 and 2.\<close>

definition chain3 :: circuit_topology where
  "chain3 = \<lparr>numberOfBits = 3, numberOfLinks = 2,
             neighborsOf = (\<lambda>i. if i = 0 then [\<lparr>site = 1, link = 0\<rparr>]
                                 else if i = 1 then [\<lparr>site = 0, link = 0\<rparr>, \<lparr>site = 2, link = 1\<rparr>]
                                 else if i = 2 then [\<lparr>site = 1, link = 1\<rparr>] else [])\<rparr>"

text \<open>
  The circuit that the constructor builds on \<open>chain3\<close> from the amplitude pairs \<open>(1/2, 0)\<close>,
  \<open>(1, 0)\<close> and \<open>(2, 0)\<close>, with the id counter at 0.  The state is
  \<open>1/2 |0> * |0> * 2 |0> = |000>\<close>, of norm 1; its \<open>Psi\<close> is \<open>1/2 |00>\<close>, of norm \<open>1/2\<close>.
\<close>

definition chain3_state :: qcircuit where
  "chain3_state =
     \<lparr>topology = chain3,
      a_link = [Index 0 1 ''LinkInd'' 0, Index 1 1 ''LinkInd'' 0],
      s_site = [Index 2 2 ''SiteInd'' 0, Index 3 2 ''SiteInd'' 0, Index 4 2 ''SiteInd'' 0],
      M_site = [ITensor [Index 2 2 ''SiteInd'' 0, Index 0 1 ''LinkInd'' 0] [([1, 1], 1 / 2), ([2, 1], 0)],
                ITensor [Index 3 2 ''SiteInd'' 0, Index 0 1 ''LinkInd'' 0, Index 1 1 ''LinkInd'' 0]
                  [([1, 1, 1], 1), ([2, 1, 1], 0)],
                ITensor [Index 4 2 ''SiteInd'' 0, Index 1 1 ''LinkInd'' 0] [([1, 1], 2), ([2, 1], 0)]],
      Psi = ITensor [Index 2 2 ''SiteInd'' 0, Index 3 2 ''SiteInd'' 0, Index 1 1 ''LinkInd'' 0]
              [([1, 1, 1], 1 / 2), ([1, 2, 1], 0), ([2, 1, 1], 0), ([2, 2, 1], 0)],
      cursor = (0, 1)\<rparr>"

text \<open>That circuit after \<open>normalize()\<close>: \<open>Psi\<close> is \<open>|00>\<close>, of norm 1.\<close>

definition chain3_unit :: qcircuit where
  "chain3_unit =
     chain3_state\<lparr>Psi := ITensor [Index 2 2 ''SiteInd'' 0, Index 3 2 ''SiteInd'' 0, Index 1 1 ''LinkInd'' 0]
                             [([1, 1, 1], 1), ([1, 2, 1], 0), ([2, 1, 1], 0), ([2, 2, 1], 0)]\<rparr>"

text \<open>
  The singular value decomposition of \<open>k |00>\<close> between site 0 and the side of site 1, for
  \<open>k > 0\<close>: \<open>|0> * k * |0>\<close> over two new bond indices of dimension 1, nothing discarded.
  \<open>svd_chain3\<close> is a kernel whose \<open>svd\<close> returns these factors, with \<open>k\<close> the element of its
  argument at \<open>|00>\<close>.
\<close>

definition chain3_U :: itensor where
  "chain3_U = ITensor [Index 2 2 ''SiteInd'' 0, Index 7 1 ''Link,U'' 0] [([1, 1], 1), ([2, 1], 0)]"

definition chain3_S :: "complex \<Rightarrow> itensor" where
  "chain3_S k = ITensor [Index 7 1 ''Link,U'' 0, Index 8 1 ''Link,V'' 0] [([1, 1], k)]"

definition chain3_V :: itensor where
  "chain3_V = ITensor [Index 8 1 ''Link,V'' 0, Index 3 2 ''SiteInd'' 0, Index 1 1 ''LinkInd'' 0]
                [([1, 1, 1], 1), ([1, 2, 1], 0)]"

definition svd_chain3 :: svd_fn where
  "svd_chain3 T U0 S0 V0 args =
     (let k = elt T [(Index 2 2 ''SiteInd'' 0, 1), (Index 3 2 ''SiteInd'' 0, 1), (Index 1 1 ''LinkInd'' 0, 1)]
      in (chain3_U, chain3_S k, chain3_V, \<lparr>truncerr = 0, eigsKept = [(cmod k)\<^sup>2]\<rparr>))"

section \<open>A line of four sites\<close>

text \<open>The chain 0 - 1 - 2 - 3, with link \<open>i\<close> between the sites \<open>i\<close> and \<open>i + 1\<close>.\<close>

definition line4 :: circuit_topology where
  "line4 = \<lparr>numberOfBits = 4, numberOfLinks = 3,
            neighborsOf = (\<lambda>i. if i = 0 then [\<lparr>site = 1, link = 0\<rparr>]
                                else if i = 1 then [\<lparr>site = 0, link = 0\<rparr>, \<lparr>site = 2, link = 1\<rparr>]
                                else if i = 2 then [\<lparr>site = 1, link = 1\<rparr>, \<lparr>site = 3, link = 2\<rparr>]
                                else if i = 3 then [\<lparr>site = 2, link = 2\<rparr>] else [])\<rparr>"

text \<open>
  The circuit that the constructor builds on \<open>line4\<close> from the amplitude pairs \<open>(1, 0)\<close>,
  \<open>(1, 0)\<close>, \<open>(3/5, 4/5)\<close> and \<open>(0, 1)\<close>, each of norm 1, with the id counter at 0 and the
  site indices supplied, the first three being those of \<open>chain3_state\<close>.  Its \<open>Psi\<close> is
  \<open>|00>\<close>, the \<open>Psi\<close> of \<open>chain3_unit\<close>.
\<close>

definition line4_state :: qcircuit where
  "line4_state =
     \<lparr>topology = line4,
      a_link = [Index 0 1 ''LinkInd'' 0, Index 1 1 ''LinkInd'' 0, Index 2 1 ''LinkInd'' 0],
      s_site = [Index 2 2 ''SiteInd'' 0, Index 3 2 ''SiteInd'' 0, Index 4 2 ''SiteInd'' 0,
                Index 5 2 ''SiteInd'' 0],
      M_site = [ITensor [Index 2 2 ''SiteInd'' 0, Index 0 1 ''LinkInd'' 0] [([1, 1], 1), ([2, 1], 0)],
                ITensor [Index 3 2 ''SiteInd'' 0, Index 0 1 ''LinkInd'' 0, Index 1 1 ''LinkInd'' 0]
                  [([1, 1, 1], 1), ([2, 1, 1], 0)],
                ITensor [Index 4 2 ''SiteInd'' 0, Index 1 1 ''LinkInd'' 0, Index 2 1 ''LinkInd'' 0]
                  [([1, 1, 1], 3 / 5), ([2, 1, 1], 4 / 5)],
                ITensor [Index 5 2 ''SiteInd'' 0, Index 2 1 ''LinkInd'' 0] [([1, 1], 0), ([2, 1], 1)]],
      Psi = ITensor [Index 2 2 ''SiteInd'' 0, Index 3 2 ''SiteInd'' 0, Index 1 1 ''LinkInd'' 0]
              [([1, 1, 1], 1), ([1, 2, 1], 0), ([2, 1, 1], 0), ([2, 2, 1], 0)],
      cursor = (0, 1)\<rparr>"

section \<open>Properties of the kernel model\<close>

lemma normT_divT: "normT (divT T r) = normT T / \<bar>r\<bar>"
proof -
  have "sum_list (map (\<lambda>kv. (cmod (snd kv / of_real r))\<^sup>2) xs) =
        sum_list (map (\<lambda>kv. (cmod (snd kv))\<^sup>2) xs) / r\<^sup>2" for xs :: "(nat list \<times> complex) list"
    by (induction xs) (simp_all add: norm_divide power_divide add_divide_distrib)
  then show ?thesis
    by (simp add: normT_def divT_def comp_def real_sqrt_divide)
qed

lemma normT_nonneg: "0 \<le> normT T"
  by (auto simp: normT_def intro!: sum_list_nonneg)

lemma normT_normalized: "normT T \<noteq> 0 \<Longrightarrow> normT (divT T (normT T)) = 1"
  using normT_nonneg [of T] by (simp add: normT_divT)

lemma prime_neq [simp]: "prime s \<noteq> s" "s \<noteq> prime s"
  by (cases s; simp add: prime_def)+

lemma normT_single: "normT (ITensor js [(k, complex_of_real r)]) = \<bar>r\<bar>"
  by (simp add: normT_def)

lemma inds_mult:
  "inds (mult A B) = filter (\<lambda>i. i \<notin> set (inds B)) (inds A) @ filter (\<lambda>i. i \<notin> set (inds A)) (inds B)"
  by (simp add: mult_def Let_def)

lemma inds_primeT_inds:
  "inds (primeT_inds T js) = map (\<lambda>i. if i \<in> set js then prime i else i) (inds T)"
  by (simp add: primeT_inds_def)

section \<open>Properties of the search loops and of the index template\<close>

lemma template_ok:
  assumes "i < length s" and "length newlist \<le> 2"
    and "list_all (\<lambda>n. link n < length a) newlist"
  shows "template s a i newlist = Inr (ITensor (s ! i # map (\<lambda>n. a ! link n) newlist) [])"
proof -
  consider "newlist = []" | n0 where "newlist = [n0]" | n0 n1 where "newlist = [n0, n1]"
    using assms(2) by (cases newlist; cases "tl newlist"; cases "tl (tl newlist)") auto
  then show ?thesis
    using assms by cases (auto simp: template_def ebind_def vec_at_def)
qed

lemma find_link_fold:
  "distinct (map site list) \<Longrightarrow>
   fold (\<lambda>i link_ind. if site i = other then link i else link_ind) list acc =
     (case find (\<lambda>n. site n = other) list of None \<Rightarrow> acc | Some n \<Rightarrow> link n)"
proof (induction list arbitrary: acc)
  case Nil
  then show ?case by simp
next
  case (Cons x xs)
  show ?case
  proof (cases "site x = other")
    case True
    from Cons.prems have "\<forall>y \<in> set xs. site y \<noteq> site x"
      by (auto simp: image_iff)
    with True have "find (\<lambda>n. site n = other) xs = None"
      by (auto simp: find_None_iff)
    with True Cons show ?thesis by simp
  next
    case False
    with Cons show ?thesis by simp
  qed
qed

lemma find_link_eq:
  "distinct (map site list) \<Longrightarrow> find (\<lambda>n. site n = other) list = Some n \<Longrightarrow>
   find_link list other = link n"
  by (simp add: find_link_def find_link_fold)

lemma length_others:
  assumes "length list \<le> 3" and "find (\<lambda>n. site n = j) list = Some n"
  shows "length (filter (\<lambda>t. site t \<noteq> j) list) \<le> 2"
proof -
  from assms(2) have "n \<in> set list" "site n = j"
    by (auto simp: find_Some_iff)
  then have "filter (\<lambda>t. site t = j) list \<noteq> []"
    by (auto simp: filter_empty_conv)
  then have "1 \<le> length (filter (\<lambda>t. site t = j) list)"
    by (cases "filter (\<lambda>t. site t = j) list") auto
  moreover have "length (filter (\<lambda>t. site t = j) list) + length (filter (\<lambda>t. site t \<noteq> j) list) = length list"
    by (rule sum_length_filter_compl)
  ultimately show ?thesis using assms(1) by linarith
qed

lemma links_in_range:
  "site_ok topo i \<Longrightarrow> list_all (\<lambda>n. link n < numberOfLinks topo) (filter P (neighborsOf topo i))"
  by (auto simp: site_ok_def list_all_iff)

lemma has_neighbor_bound:
  "site_ok topo i \<Longrightarrow> has_neighbor topo i ind \<Longrightarrow> ind < numberOfBits topo"
  by (auto simp: site_ok_def has_neighbor_def list_all_iff list_ex_iff)

lemma link_between_bound:
  "site_ok topo i \<Longrightarrow> link_between topo i j = Some e \<Longrightarrow> e < numberOfLinks topo"
  by (auto simp: site_ok_def link_between_def list_all_iff find_Some_iff)

section \<open>Properties of the loop of the constructor\<close>

lemma vec_at_take: "i < n \<Longrightarrow> vec_at nm (take n q) i = vec_at nm q i"
  by (simp add: vec_at_def)

lemma init_tensor_take:
  "i < n \<Longrightarrow> init_tensor topo s a (take n q) i = init_tensor topo s a q i"
  by (simp add: init_tensor_def vec_at_take cong: list.case_cong)

lemma init_tensors_take:
  "\<forall>i \<in> set sites. i < n \<Longrightarrow>
   init_tensors topo s a (take n q) sites = init_tensors topo s a q sites"
  by (induction sites) (simp_all add: init_tensor_take)

lemma QCircuit_take:
  "QCircuit idgen topo (take (numberOfBits topo) q) ps = QCircuit idgen topo q ps"
  by (simp add: QCircuit_def Let_def init_tensors_take)

lemma init_tensor_ok:
  assumes "1 \<le> length (neighborsOf topo i)" and "length (neighborsOf topo i) \<le> 3"
    and "list_all (\<lambda>n. link n < length a) (neighborsOf topo i)"
    and "i < length s" and "i < length q"
  shows "\<exists>t. init_tensor topo s a q i = Inr t"
proof -
  consider n0 where "neighborsOf topo i = [n0]"
    | n0 n1 where "neighborsOf topo i = [n0, n1]"
    | n0 n1 n2 where "neighborsOf topo i = [n0, n1, n2]"
    using assms(1,2)
    by (cases "neighborsOf topo i"; cases "tl (neighborsOf topo i)";
        cases "tl (tl (neighborsOf topo i))"; cases "tl (tl (tl (neighborsOf topo i)))") auto
  then show ?thesis
    using assms(3,4,5) by cases (auto simp: init_tensor_def ebind_def vec_at_def)
qed

lemma init_tensor_short:
  assumes "1 \<le> length (neighborsOf topo k)" and "length (neighborsOf topo k) \<le> 3"
    and "length s \<le> k"
  shows "init_tensor topo s a q k = Inl (OutOfRange ''s'' k)"
proof -
  consider n0 where "neighborsOf topo k = [n0]"
    | n0 n1 where "neighborsOf topo k = [n0, n1]"
    | n0 n1 n2 where "neighborsOf topo k = [n0, n1, n2]"
    using assms(1,2)
    by (cases "neighborsOf topo k"; cases "tl (neighborsOf topo k)";
        cases "tl (tl (neighborsOf topo k))"; cases "tl (tl (tl (neighborsOf topo k)))") auto
  then show ?thesis
    using assms(3) by cases (auto simp: init_tensor_def ebind_def vec_at_def)
qed

lemma init_tensors_ok:
  assumes "\<forall>i \<in> set sites. \<exists>t. init_tensor topo s a q i = Inr t"
  shows "\<exists>M. init_tensors topo s a q sites = Inr M \<and> length M = length sites"
  using assms by (induction sites) (auto simp: ebind_def)

lemma init_tensors_stop:
  assumes "\<forall>i \<in> set sites. \<exists>t. init_tensor topo s a q i = Inr t"
    and "init_tensor topo s a q k = Inl e"
  shows "init_tensors topo s a q (sites @ k # rest) = Inl e"
  using assms by (induction sites) (auto simp: ebind_def)

lemma wf_topology_site:
  assumes "wf_topology topo" and "i < numberOfBits topo"
  shows "1 \<le> length (neighborsOf topo i)" "length (neighborsOf topo i) \<le> 3"
    "list_all (\<lambda>n. link n < numberOfLinks topo) (neighborsOf topo i)"
  using assms by (auto simp: wf_topology_def list_all_iff)

lemma QCircuit_ok:
  assumes "wf_topology topo" and "numberOfBits topo \<le> length q"
    and "ps = [] \<or> numberOfBits topo \<le> length ps"
  shows "\<exists>c. QCircuit idgen topo q ps = Inr c \<and> cursor c = (0, 1) \<and>
           length (M_site c) = numberOfBits topo \<and>
           s_site c = (if ps = []
                       then map (\<lambda>i. Index (idgen + numberOfLinks topo + i) 2 ''SiteInd'' 0)
                              [0..<numberOfBits topo]
                       else ps)"
proof -
  let ?a = "map (\<lambda>i. Index (idgen + i) 1 ''LinkInd'' 0) [0..<numberOfLinks topo]"
  let ?s = "if ps = []
            then map (\<lambda>i. Index (idgen + numberOfLinks topo + i) 2 ''SiteInd'' 0) [0..<numberOfBits topo]
            else ps"
  have ls: "numberOfBits topo \<le> length ?s"
    using assms(3) by auto
  have "\<forall>i \<in> set [0..<numberOfBits topo]. \<exists>t. init_tensor topo ?s ?a q i = Inr t"
  proof
    fix i assume "i \<in> set [0..<numberOfBits topo]"
    then have i: "i < numberOfBits topo" by simp
    show "\<exists>t. init_tensor topo ?s ?a q i = Inr t"
      using wf_topology_site [OF assms(1) i] i ls assms(2)
      by (intro init_tensor_ok) simp_all
  qed
  from init_tensors_ok [OF this] obtain M where
    M: "init_tensors topo ?s ?a q [0..<numberOfBits topo] = Inr M" "length M = numberOfBits topo"
    by auto
  moreover have "2 \<le> numberOfBits topo"
    using assms(1) by (simp add: wf_topology_def)
  ultimately show ?thesis
    by (auto simp: QCircuit_def Let_def ebind_def vec_at_def)
qed

lemma QCircuit_short:
  assumes "wf_topology topo" and "numberOfBits topo \<le> length q"
    and "ps \<noteq> []" and "length ps < numberOfBits topo"
  shows "QCircuit idgen topo q ps = Inl (OutOfRange ''s'' (length ps))"
proof -
  let ?a = "map (\<lambda>i. Index (idgen + i) 1 ''LinkInd'' 0) [0..<numberOfLinks topo]"
  let ?k = "length ps"
  have split: "[0..<numberOfBits topo] = [0..<?k] @ ?k # [Suc ?k..<numberOfBits topo]"
    using assms(4) by (metis less_imp_add_positive upt_add_eq_append upt_conv_Cons zero_le add_0)
  have "\<forall>i \<in> set [0..<?k]. \<exists>t. init_tensor topo ps ?a q i = Inr t"
  proof
    fix i assume "i \<in> set [0..<?k]"
    then have i: "i < ?k" by simp
    with assms(4) have iN: "i < numberOfBits topo" by simp
    show "\<exists>t. init_tensor topo ps ?a q i = Inr t"
      using wf_topology_site [OF assms(1) iN] i iN assms(2)
      by (intro init_tensor_ok) simp_all
  qed
  moreover have "init_tensor topo ps ?a q ?k = Inl (OutOfRange ''s'' ?k)"
    using wf_topology_site(1,2) [OF assms(1,4)] by (intro init_tensor_short) simp_all
  ultimately have "init_tensors topo ps ?a q [0..<numberOfBits topo] = Inl (OutOfRange ''s'' ?k)"
    unfolding split by (rule init_tensors_stop)
  then show ?thesis
    using assms(3) by (simp add: QCircuit_def Let_def ebind_def)
qed

lemma QCircuit_eval:
  assumes "init_tensors topo s a q [0..<numberOfBits topo] = Inr (M0 # M1 # Ms)"
    and "map (\<lambda>i. Index (idgen + i) 1 ''LinkInd'' 0) [0..<numberOfLinks topo] = a"
    and "(if ps = []
          then map (\<lambda>i. Index (idgen + numberOfLinks topo + i) 2 ''SiteInd'' 0) [0..<numberOfBits topo]
          else ps) = s"
    and "mult M0 M1 = P"
  shows "QCircuit idgen topo q ps =
           Inr \<lparr>topology = topo, a_link = a, s_site = s, M_site = M0 # M1 # Ms, Psi = P,
                cursor = (0, 1)\<rparr>"
  using assms by (simp add: QCircuit_def Let_def ebind_def vec_at_def)

section \<open>Facts about the two circuits\<close>

lemma chain_state_ok:
  "contracted chain_state"
  "cursor chain_state = (0, 1)"
  "link_between (topology chain_state) 0 1 = Some 0"
  "has_neighbor (topology chain_state) 0 2"
  "\<not> has_neighbor (topology chain_state) 1 2"
  "has_neighbor (topology chain_state) 1 3"
  by code_simp+

lemma pair_state_ok:
  "contracted pair_state" "cursor pair_state = (0, 1)"
  "link_between (topology pair_state) 0 1 = Some 0"
  by code_simp+

lemma chain_gate_ok:
  "length (inds chain_gate) = 4"
  "set (inds chain_gate) = {s_site chain_state ! 0, s_site chain_state ! 1,
                            prime (s_site chain_state ! 0), prime (s_site chain_state ! 1)}"
  "Psi_has_sites chain_state"
  by code_simp+

lemma pair_init_built:
  "QCircuit 0 topo2 ((1, 0) # (1, 0) # extra) [] = Inr pair_init"
proof -
  have t: "take (numberOfBits topo2) ((1, 0) # (1, 0) # extra) = [(1, 0), (1, 0)]"
    by (simp add: topo2_def)
  have "QCircuit 0 topo2 (take (numberOfBits topo2) ((1, 0) # (1, 0) # extra)) [] = Inr pair_init"
    unfolding t pair_init_def
    by (rule QCircuit_eval) code_simp+
  then show ?thesis
    by (simp only: QCircuit_take)
qed

lemma pair_init_longer:
  "QCircuit 0 topo2 [(1, 0), (1, 0)]
     [Index 1 2 ''SiteInd'' 0, Index 2 2 ''SiteInd'' 0, Index 9 2 ''SiteInd'' 0] =
   Inr (pair_init\<lparr>s_site := [Index 1 2 ''SiteInd'' 0, Index 2 2 ''SiteInd'' 0,
                                Index 9 2 ''SiteInd'' 0]\<rparr>)"
proof -
  have e: "QCircuit 0 topo2 [(1, 0), (1, 0)]
     [Index 1 2 ''SiteInd'' 0, Index 2 2 ''SiteInd'' 0, Index 9 2 ''SiteInd'' 0] =
     Inr \<lparr>topology = topo2,
      a_link = [Index 0 1 ''LinkInd'' 0],
      s_site = [Index 1 2 ''SiteInd'' 0, Index 2 2 ''SiteInd'' 0, Index 9 2 ''SiteInd'' 0],
      M_site = [ITensor [Index 1 2 ''SiteInd'' 0, Index 0 1 ''LinkInd'' 0] [([1, 1], 1), ([2, 1], 0)],
                ITensor [Index 2 2 ''SiteInd'' 0, Index 0 1 ''LinkInd'' 0] [([1, 1], 1), ([2, 1], 0)]],
      Psi = ITensor [Index 1 2 ''SiteInd'' 0, Index 2 2 ''SiteInd'' 0]
              [([1, 1], 1), ([1, 2], 0), ([2, 1], 0), ([2, 2], 0)],
      cursor = (0, 1)\<rparr>"
    by (rule QCircuit_eval) code_simp+
  show ?thesis
    unfolding e by (simp add: pair_init_def)
qed

lemma chain_state_built:
  "QCircuit 0 chain4 [(1, 0), (1, 0), (0, 1), (1, 0)] [] = Inr chain_state"
  unfolding chain_state_def by (rule QCircuit_eval) code_simp+

lemma pair_gate_applied: "apply_op pair_gate pair_init = Inr pair_state"
proof -
  have "mult pair_gate (primeT_inds (Psi pair_init) [Index 1 2 ''SiteInd'' 0, Index 2 2 ''SiteInd'' 0])
     = ITensor [Index 1 2 ''SiteInd'' 0, Index 2 2 ''SiteInd'' 0]
         [([1, 1], 3 / 5), ([1, 2], 0), ([2, 1], 0), ([2, 2], 4 / 5)]"
    by (simp add: mult_def elt_def key_of_def val_of_def upt_rec pair_gate_def pair_init_def
        primeT_inds_def prime_def)
  moreover have "length (inds pair_gate) = 4"
      "vec_at ''s'' (s_site pair_init) (fst (cursor pair_init)) = Inr (Index 1 2 ''SiteInd'' 0)"
      "vec_at ''s'' (s_site pair_init) (snd (cursor pair_init)) = Inr (Index 2 2 ''SiteInd'' 0)"
      "list_all (\<lambda>elem. elem = Index 1 2 ''SiteInd'' 0 \<or> elem = Index 2 2 ''SiteInd'' 0
                  \<or> elem = prime (Index 1 2 ''SiteInd'' 0) \<or> elem = prime (Index 2 2 ''SiteInd'' 0))
         (inds pair_gate)"
    by code_simp+
  ultimately show ?thesis
    by (simp add: apply_op_def ebind_def pair_state_def)
qed

lemma wf_examples: "wf_topology topo2" "wf_topology chain4"
  by code_simp+

text \<open>
  The factors that \<open>svd_chain\<close> returns multiply to the \<open>Psi\<close> of \<open>chain_state\<close>.  The factors
  that \<open>svd_pair\<close> returns multiply to \<open>4/5 |11>\<close>, the \<open>Psi\<close> of \<open>pair_state\<close> without the term
  of its smaller singular value.
\<close>

lemma svd_chain_exact: "mult (mult chain_U chain_S) chain_V = Psi chain_state"
  by code_simp

lemma svd_pair_truncated:
  "mult (mult pair_U pair_S) pair_V =
     ITensor [Index 1 2 ''SiteInd'' 0, Index 2 2 ''SiteInd'' 0]
       [([1, 1], 0), ([1, 2], 0), ([2, 1], 0), ([2, 2], 4 / 5)]"
  by (simp add: mult_def elt_def key_of_def val_of_def upt_rec pair_U_def pair_S_def pair_V_def)

section \<open>shift_to\<close>

text \<open>
  C1.  Let \<open>c\<close> be a circuit in the contracted configuration with cursor \<open>(first, second)\<close>,
  let \<open>e\<close> be the link between the two cursor sites, and let \<open>ind\<close> be a site that is not
  under the cursor.

  Case A: if \<open>ind\<close> is a neighbour of \<open>first\<close> and not of \<open>second\<close>, then \<open>shift_to\<close> calls
  \<open>svd\<close> on \<open>Psi\<close> with the template for \<open>V\<close> that holds \<open>s[second]\<close> and the link indices of
  the neighbours of \<open>second\<close> other than \<open>first\<close>; it returns the spectrum of that call and
  leaves the circuit with \<open>a[e] = commonIndex(S, V)\<close>, \<open>M[second] = V\<close>,
  \<open>Psi = M[ind] * U * S\<close> for \<open>S\<close> divided by its norm, and the cursor \<open>(ind, first)\<close>.

  Case B: if \<open>ind\<close> is a neighbour of \<open>second\<close>, then \<open>svd\<close> is called with the template for
  \<open>U\<close> that holds \<open>s[first]\<close> and the link indices of the neighbours of \<open>first\<close> other than
  \<open>second\<close>, and the circuit is left with \<open>a[e] = commonIndex(U, S)\<close>, \<open>M[first] = U\<close>,
  \<open>Psi = S * V * M[ind]\<close> for \<open>S\<close> divided by its norm, and the cursor \<open>(second, ind)\<close>.

  Nothing else of the circuit changes.
\<close>

theorem shift_to_moves_cursor:
  assumes "contracted c"
    and "cursor c = (first, second)"
    and "link_between (topology c) first second = Some e"
    and "ind \<noteq> first" and "ind \<noteq> second"
  shows
    "(has_neighbor (topology c) first ind \<and> \<not> has_neighbor (topology c) second ind \<longrightarrow>
        (case svd (Psi c) ITensor_default ITensor_default
                (ITensor (s_site c ! second #
                          map (\<lambda>n. a_link c ! link n)
                            (filter (\<lambda>n. site n \<noteq> first) (neighborsOf (topology c) second))) [])
                args of
           (U, S, V, spec) \<Rightarrow>
             shift_to svd ind args c =
               Inr (spec, c\<lparr>a_link := (a_link c)[e := commonIndex S V],
                            M_site := (M_site c)[second := V],
                            Psi := mult (mult (M_site c ! ind) U) (divT S (normT S)),
                            cursor := (ind, first)\<rparr>)))
     \<and> (has_neighbor (topology c) second ind \<longrightarrow>
        (case svd (Psi c)
                (ITensor (s_site c ! first #
                          map (\<lambda>n. a_link c ! link n)
                            (filter (\<lambda>n. site n \<noteq> second) (neighborsOf (topology c) first))) [])
                ITensor_default ITensor_default args of
           (U, S, V, spec) \<Rightarrow>
             shift_to svd ind args c =
               Inr (spec, c\<lparr>a_link := (a_link c)[e := commonIndex U S],
                            M_site := (M_site c)[first := U],
                            Psi := mult (mult (divT S (normT S)) V) (M_site c ! ind),
                            cursor := (second, ind)\<rparr>)))"
proof -
  let ?t = "topology c"
  from assms(1,2) have len: "length (a_link c) = numberOfLinks ?t"
      "length (s_site c) = numberOfBits ?t" "length (M_site c) = numberOfBits ?t"
    and bounds: "first < numberOfBits ?t" "second < numberOfBits ?t"
    and ok: "site_ok ?t first" "site_ok ?t second"
    and link_sym: "link_between ?t second first = link_between ?t first second"
    by (simp_all add: contracted_def)
  from assms(3) obtain n1 where n1: "find (\<lambda>n. site n = second) (neighborsOf ?t first) = Some n1"
      and e1: "link n1 = e"
    by (auto simp: link_between_def)
  from assms(3) link_sym obtain n2 where n2: "find (\<lambda>n. site n = first) (neighborsOf ?t second) = Some n2"
      and e2: "link n2 = e"
    by (auto simp: link_between_def)
  have e_bound: "e < length (a_link c)"
    using link_between_bound [OF ok(1) assms(3)] len by simp
  have dist: "distinct (map site (neighborsOf ?t first))" "distinct (map site (neighborsOf ?t second))"
      and deg: "length (neighborsOf ?t first) \<le> 3" "length (neighborsOf ?t second) \<le> 3"
    using ok by (simp_all add: site_ok_def)
  have fl1: "find_link (neighborsOf ?t first) second = e"
    using find_link_eq [OF dist(1) n1] e1 by simp
  have fl2: "find_link (neighborsOf ?t second) first = e"
    using find_link_eq [OF dist(2) n2] e2 by simp
  have tV: "template (s_site c) (a_link c) second (filter (\<lambda>t. site t \<noteq> first) (neighborsOf ?t second))
      = Inr (ITensor (s_site c ! second # map (\<lambda>n. a_link c ! link n)
                (filter (\<lambda>n. site n \<noteq> first) (neighborsOf ?t second))) [])"
    using bounds len length_others [OF deg(2) n2] links_in_range [OF ok(2)]
    by (intro template_ok) simp_all
  have tU: "template (s_site c) (a_link c) first (filter (\<lambda>t. site t \<noteq> second) (neighborsOf ?t first))
      = Inr (ITensor (s_site c ! first # map (\<lambda>n. a_link c ! link n)
                (filter (\<lambda>n. site n \<noteq> second) (neighborsOf ?t first))) [])"
    using bounds len length_others [OF deg(1) n1] links_in_range [OF ok(1)]
    by (intro template_ok) simp_all
  show ?thesis
  proof (intro conjI impI)
    assume A: "has_neighbor ?t first ind \<and> \<not> has_neighbor ?t second ind"
    then have "ind < length (M_site c)"
      using has_neighbor_bound [OF ok(1)] len by simp
    with A assms(2,4,5) bounds len e_bound show "case svd (Psi c) ITensor_default ITensor_default
                (ITensor (s_site c ! second #
                          map (\<lambda>n. a_link c ! link n)
                            (filter (\<lambda>n. site n \<noteq> first) (neighborsOf (topology c) second))) [])
                args of
           (U, S, V, spec) \<Rightarrow>
             shift_to svd ind args c =
               Inr (spec, c\<lparr>a_link := (a_link c)[e := commonIndex S V],
                            M_site := (M_site c)[second := V],
                            Psi := mult (mult (M_site c ! ind) U) (divT S (normT S)),
                            cursor := (ind, first)\<rparr>)"
      by (simp add: shift_to_def Let_def tV fl2 ebind_def vec_upd_def vec_at_def split: prod.splits)
  next
    assume B: "has_neighbor ?t second ind"
    then have "ind < length (M_site c)"
      using has_neighbor_bound [OF ok(2)] len by simp
    with B assms(2,4,5) bounds len e_bound show "case svd (Psi c)
                (ITensor (s_site c ! first #
                          map (\<lambda>n. a_link c ! link n)
                            (filter (\<lambda>n. site n \<noteq> second) (neighborsOf (topology c) first))) [])
                ITensor_default ITensor_default args of
           (U, S, V, spec) \<Rightarrow>
             shift_to svd ind args c =
               Inr (spec, c\<lparr>a_link := (a_link c)[e := commonIndex U S],
                            M_site := (M_site c)[first := U],
                            Psi := mult (mult (divT S (normT S)) V) (M_site c ! ind),
                            cursor := (second, ind)\<rparr>)"
      by (simp add: shift_to_def Let_def tU fl1 ebind_def vec_upd_def vec_at_def split: prod.splits)
  qed
qed

theorem shift_to_moves_cursor_witness:
  "contracted chain_state \<and> cursor chain_state = (0, 1)
   \<and> link_between (topology chain_state) 0 1 = Some 0
   \<and> has_neighbor (topology chain_state) 0 2 \<and> \<not> has_neighbor (topology chain_state) 1 2
   \<and> shift_to svd_chain 2 args0 chain_state =
       Inr (\<lparr>truncerr = 0, eigsKept = [1]\<rparr>,
            chain_state\<lparr>a_link := (a_link chain_state)[0 := commonIndex chain_S chain_V],
                        M_site := (M_site chain_state)[1 := chain_V],
                        Psi := mult (mult (M_site chain_state ! 2) chain_U) (divT chain_S (normT chain_S)),
                        cursor := (2, 0)\<rparr>)
   \<and> has_neighbor (topology chain_state) 1 3
   \<and> shift_to svd_chain 3 args0 chain_state =
       Inr (\<lparr>truncerr = 0, eigsKept = [1]\<rparr>,
            chain_state\<lparr>a_link := (a_link chain_state)[0 := commonIndex chain_U chain_S],
                        M_site := (M_site chain_state)[0 := chain_U],
                        Psi := mult (mult (divT chain_S (normT chain_S)) chain_V) (M_site chain_state ! 3),
                        cursor := (1, 3)\<rparr>)"
  using shift_to_moves_cursor [OF chain_state_ok(1,2,3), of 2 svd_chain args0]
    shift_to_moves_cursor [OF chain_state_ok(1,2,3), of 3 svd_chain args0]
    chain_state_ok
  by (simp add: svd_chain_def)

text \<open>
  C5.  When \<open>ind\<close> is \<open>cursor.first\<close>, or is \<open>cursor.second\<close>, or is a neighbour of neither of
  the two, \<open>shift_to\<close> stops at a failed assertion and returns no spectrum, whatever the
  circuit is.
\<close>

theorem shift_to_halts:
  assumes "ind = fst (cursor c) \<or> ind = snd (cursor c)
           \<or> (\<not> has_neighbor (topology c) (fst (cursor c)) ind
               \<and> \<not> has_neighbor (topology c) (snd (cursor c)) ind)"
  shows "\<exists>d. shift_to svd ind args c = Inl (AssertFailed d)"
  using assms by (auto simp add: shift_to_def Let_def)

theorem shift_to_halts_witness:
  "\<not> has_neighbor (topology chain_state) (fst (cursor chain_state)) 3
   \<and> \<not> has_neighbor (topology chain_state) (snd (cursor chain_state)) 2
   \<and> (\<exists>d. shift_to svd_chain 0 args0 chain_state = Inl (AssertFailed d))
   \<and> (\<exists>d. shift_to svd_chain 1 args0 chain_state = Inl (AssertFailed d))
   \<and> (\<exists>d. shift_to svd_chain 7 args0 chain_state = Inl (AssertFailed d))"
proof -
  have n: "\<not> has_neighbor (topology chain_state) (fst (cursor chain_state)) 3"
      "\<not> has_neighbor (topology chain_state) (snd (cursor chain_state)) 2"
      "\<not> has_neighbor (topology chain_state) (fst (cursor chain_state)) 7"
      "\<not> has_neighbor (topology chain_state) (snd (cursor chain_state)) 7"
      "fst (cursor chain_state) = 0" "snd (cursor chain_state) = 1"
    by code_simp+
  show ?thesis
    using shift_to_halts [of 0 chain_state svd_chain args0]
      shift_to_halts [of 1 chain_state svd_chain args0]
      shift_to_halts [of 7 chain_state svd_chain args0] n
    by simp
qed

section \<open>decomposePsi\<close>

lemma decomposePsi_result:
  assumes "contracted c"
    and "cursor c = (first, second)"
    and "link_between (topology c) first second = Some e"
    and "svd (Psi c)
           (ITensor (s_site c ! first #
                     map (\<lambda>n. a_link c ! link n)
                       (filter (\<lambda>n. site n \<noteq> second) (neighborsOf (topology c) first))) [])
           ITensor_default ITensor_default args = (U, S, V, spec)"
  shows "decomposePsi svd args c =
           Inr (c\<lparr>a_link := (a_link c)[e := commonIndex U S],
                  M_site := (M_site c)[first := U, second := mult (divT S (normT S)) V]\<rparr>)"
proof -
  let ?t = "topology c"
  from assms(1,2) have len: "length (a_link c) = numberOfLinks ?t"
      "length (s_site c) = numberOfBits ?t" "length (M_site c) = numberOfBits ?t"
    and bounds: "first < numberOfBits ?t" "second < numberOfBits ?t"
    and ok: "site_ok ?t first"
    by (simp_all add: contracted_def)
  from assms(3) obtain n1 where n1: "find (\<lambda>n. site n = second) (neighborsOf ?t first) = Some n1"
      and e1: "link n1 = e"
    by (auto simp: link_between_def)
  have e_bound: "e < length (a_link c)"
    using link_between_bound [OF ok assms(3)] len by simp
  have deg: "length (neighborsOf ?t first) \<le> 3"
    using ok by (simp add: site_ok_def)
  have tU: "template (s_site c) (a_link c) first (filter (\<lambda>t. site t \<noteq> second) (neighborsOf ?t first))
      = Inr (ITensor (s_site c ! first # map (\<lambda>n. a_link c ! link n)
                (filter (\<lambda>n. site n \<noteq> second) (neighborsOf ?t first))) [])"
    using bounds len length_others [OF deg n1] links_in_range [OF ok]
    by (intro template_ok) simp_all
  show ?thesis
    using assms(2,4) n1 e1 e_bound bounds len
    by (simp add: decomposePsi_def Let_def tU ebind_def vec_upd_def)
qed

text \<open>
  C2.  Let \<open>c\<close> be a circuit in the contracted configuration with cursor \<open>(first, second)\<close>
  and let \<open>e\<close> be the link between the two cursor sites.  \<open>decomposePsi\<close> calls \<open>svd\<close> on \<open>Psi\<close>
  with the template for \<open>U\<close> that holds \<open>s[first]\<close> and the link indices of the neighbours of
  \<open>first\<close> other than \<open>second\<close>.  It leaves the circuit with \<open>a[e] = commonIndex(U, S)\<close>,
  \<open>M[first] = U\<close> and \<open>M[second] = S * V\<close> for \<open>S\<close> divided by its norm, and with the cursor
  where it was.  The divided \<open>S\<close> has norm 1 (over the reals, and when the norm of \<open>S\<close> is
  not zero).
\<close>

theorem decomposePsi_refactors:
  assumes "contracted c"
    and "cursor c = (first, second)"
    and "link_between (topology c) first second = Some e"
  shows
    "case svd (Psi c)
            (ITensor (s_site c ! first #
                      map (\<lambda>n. a_link c ! link n)
                        (filter (\<lambda>n. site n \<noteq> second) (neighborsOf (topology c) first))) [])
            ITensor_default ITensor_default args of
       (U, S, V, spec) \<Rightarrow>
         decomposePsi svd args c =
           Inr (c\<lparr>a_link := (a_link c)[e := commonIndex U S],
                  M_site := (M_site c)[first := U, second := mult (divT S (normT S)) V]\<rparr>)
         \<and> cursor (c\<lparr>a_link := (a_link c)[e := commonIndex U S],
                  M_site := (M_site c)[first := U, second := mult (divT S (normT S)) V]\<rparr>) = (first, second)
         \<and> (normT S \<noteq> 0 \<longrightarrow> normT (divT S (normT S)) = 1)"
  using assms by (auto simp: decomposePsi_result normT_normalized split: prod.splits)

theorem decomposePsi_refactors_witness:
  "contracted chain_state \<and> cursor chain_state = (0, 1)
   \<and> link_between (topology chain_state) 0 1 = Some 0
   \<and> decomposePsi svd_chain args0 chain_state =
       Inr (chain_state\<lparr>a_link := (a_link chain_state)[0 := commonIndex chain_U chain_S],
              M_site := (M_site chain_state)[0 := chain_U, 1 := mult (divT chain_S (normT chain_S)) chain_V]\<rparr>)
   \<and> normT chain_S \<noteq> 0
   \<and> normT (divT chain_S (normT chain_S)) = 1"
proof -
  have n: "normT chain_S \<noteq> 0"
    by (simp add: normT_def chain_S_def)
  show ?thesis
    using decomposePsi_refactors [OF chain_state_ok(1,2,3), of svd_chain args0] chain_state_ok n
    by (simp add: svd_chain_def)
qed

lemma pair_S_normalized:
  "divT pair_S (normT pair_S) =
     ITensor [Index 7 1 ''Link,U'' 0, Index 8 1 ''Link,V'' 0] [([1, 1], 1)]"
proof -
  have n: "normT pair_S = 4 / 5"
    using normT_single [of "inds pair_S" "[1, 1]" "4 / 5"] by (simp add: pair_S_def)
  have d: "divT pair_S (4 / 5) =
      ITensor [Index 7 1 ''Link,U'' 0, Index 8 1 ''Link,V'' 0] [([1, 1], 1)]"
    by (simp add: divT_def pair_S_def)
  show ?thesis
    unfolding n by (rule d)
qed

lemma pair_SV:
  "mult (ITensor [Index 7 1 ''Link,U'' 0, Index 8 1 ''Link,V'' 0] [([1, 1], 1)]) pair_V
     = ITensor [Index 7 1 ''Link,U'' 0, Index 2 2 ''SiteInd'' 0] [([1, 1], 0), ([1, 2], 1)]"
  by code_simp

lemma pair_decomposed:
  "decomposePsi (svd_pair sp) args0 pair_state = Inr pair_after"
proof -
  have r: "decomposePsi (svd_pair sp) args0 pair_state =
      Inr (pair_state\<lparr>a_link := (a_link pair_state)[0 := commonIndex pair_U pair_S],
             M_site := (M_site pair_state)[0 := pair_U, 1 := mult (divT pair_S (normT pair_S)) pair_V]\<rparr>)"
    by (rule decomposePsi_result [OF pair_state_ok]) (simp add: svd_pair_def)
  have ci: "commonIndex pair_U pair_S = Index 7 1 ''Link,U'' 0"
    by code_simp
  have v: "a_link pair_state = [Index 0 1 ''LinkInd'' 0]"
    by (simp add: pair_state_def pair_init_def)
  have m: "(M_site pair_state)[0 := x, 1 := y] = [x, y]" for x y
    by (simp add: pair_state_def pair_init_def)
  show ?thesis
    unfolding r pair_after_def ci pair_S_normalized pair_SV v m by simp
qed

lemma pair_after_values:
  "cursor pair_after = (0, 1)"
  "elt (Psi pair_after) [(Index 1 2 ''SiteInd'' 0, 1), (Index 2 2 ''SiteInd'' 0, 1)] = 3 / 5"
  "elt (mult (M_site pair_after ! 0) (M_site pair_after ! 1))
       [(Index 1 2 ''SiteInd'' 0, 1), (Index 2 2 ''SiteInd'' 0, 1)] = 0"
  "Psi pair_after \<noteq> mult (M_site pair_after ! 0) (M_site pair_after ! 1)"
  by code_simp+

text \<open>
  C3, as the code has it.  \<open>decomposePsi\<close> is a \<open>void\<close> function: what it leaves is the
  circuit, and the spectrum that \<open>svd\<close> reports is dropped.  Whatever is done to the
  spectrum that the kernel reports (\<open>f\<close>), the outcome of \<open>decomposePsi\<close> is the same.
\<close>

theorem decomposePsi_drops_spectrum:
  "decomposePsi (\<lambda>T U0 S0 V0 args. case svd T U0 S0 V0 args of (U, S, V, spec) \<Rightarrow> (U, S, V, f spec)) args c
     = decomposePsi svd args c"
  by (auto simp: decomposePsi_def Let_def ebind_def split: option.splits sum.splits prod.splits)

text \<open>
  C3, as the claim states it: on \<open>pair_state\<close>, a kernel that reports the discarded weight
  \<open>9/25\<close> and a kernel that reports the discarded weight \<open>0\<close> for the same factors give the
  same outcome of \<open>decomposePsi\<close>, the circuit \<open>pair_after\<close>.  The outcome does not report the
  discarded weight.
\<close>

theorem decomposePsi_spectrum_counterexample:
  "decomposePsi (svd_pair \<lparr>truncerr = 9 / 25, eigsKept = [16 / 25]\<rparr>) args0 pair_state = Inr pair_after
   \<and> decomposePsi (svd_pair \<lparr>truncerr = 0, eigsKept = [16 / 25]\<rparr>) args0 pair_state = Inr pair_after
   \<and> truncerr \<lparr>truncerr = 9 / 25, eigsKept = [16 / 25]\<rparr> \<noteq> truncerr \<lparr>truncerr = 0, eigsKept = [16 / 25]\<rparr>"
  by (simp add: pair_decomposed)

text \<open>
  C4, as the code has it.  On a circuit in the contracted configuration \<open>decomposePsi\<close>
  returns, and it leaves \<open>Psi\<close> and the cursor as they were before the call: \<open>Psi\<close> is not
  computed again from the factors stored.
\<close>

theorem decomposePsi_keeps_Psi:
  assumes "contracted c"
  shows "\<exists>c'. decomposePsi svd args c = Inr c' \<and> Psi c' = Psi c \<and> cursor c' = cursor c"
proof -
  obtain first second where cur: "cursor c = (first, second)"
    by (cases "cursor c")
  with assms obtain e where e: "link_between (topology c) first second = Some e"
    by (auto simp: contracted_def)
  obtain U S V spec where sv:
    "svd (Psi c)
       (ITensor (s_site c ! first #
                 map (\<lambda>n. a_link c ! link n)
                   (filter (\<lambda>n. site n \<noteq> second) (neighborsOf (topology c) first))) [])
       ITensor_default ITensor_default args = (U, S, V, spec)"
    using prod_cases4 by blast
  from decomposePsi_result [of c first second e svd args U S V spec, OF assms cur e sv]
  show ?thesis
    by simp
qed

theorem decomposePsi_keeps_Psi_witness:
  "contracted pair_state
   \<and> (\<exists>c'. decomposePsi (svd_pair \<lparr>truncerr = 9 / 25, eigsKept = [16 / 25]\<rparr>) args0 pair_state = Inr c'
            \<and> Psi c' = Psi pair_state \<and> cursor c' = cursor pair_state)"
  using decomposePsi_keeps_Psi [OF pair_state_ok(1), of "svd_pair \<lparr>truncerr = 9 / 25, eigsKept = [16 / 25]\<rparr>" args0]
    pair_state_ok(1)
  by simp

text \<open>
  C4, as the claim states it: \<open>pair_state\<close> has \<open>Psi = 3/5 |00> + 4/5 |11>\<close>, and the kernel
  keeps one singular value.  After \<open>decomposePsi\<close> the element of \<open>Psi\<close> at \<open>|00>\<close> is still
  \<open>3/5\<close>, and the element of \<open>M[first] * M[second]\<close> there is \<open>0\<close>: \<open>Psi\<close> is not the product of the
  factors stored.
\<close>

theorem decomposePsi_recontracts_counterexample:
  "decomposePsi (svd_pair \<lparr>truncerr = 9 / 25, eigsKept = [16 / 25]\<rparr>) args0 pair_state = Inr pair_after
   \<and> cursor pair_after = (0, 1)
   \<and> elt (Psi pair_after) [(Index 1 2 ''SiteInd'' 0, 1), (Index 2 2 ''SiteInd'' 0, 1)] = 3 / 5
   \<and> elt (mult (M_site pair_after ! 0) (M_site pair_after ! 1))
          [(Index 1 2 ''SiteInd'' 0, 1), (Index 2 2 ''SiteInd'' 0, 1)] = 0
   \<and> Psi pair_after \<noteq> mult (M_site pair_after ! 0) (M_site pair_after ! 1)"
  using pair_decomposed pair_after_values by blast

section \<open>apply\<close>

text \<open>
  C8.  Let \<open>c\<close> be a circuit in the contracted configuration with cursor \<open>(first, second)\<close>,
  and let \<open>op\<close> have four indices, which are \<open>s[first]\<close>, \<open>s[second]\<close> and their primes.  Then
  \<open>apply(op)\<close> returns, and the circuit after it is \<open>c\<close> with
  \<open>Psi = op * prime(Psi, s[first], s[second])\<close> and nothing else changed: the site tensors,
  the link indices, the site indices and the cursor are those of \<open>c\<close>, and \<open>svd\<close> is not
  called.  When \<open>Psi\<close> carried the two site indices unprimed, the new \<open>Psi\<close> has the same
  indices as the old one.
\<close>

theorem apply_op_replaces_Psi:
  assumes "contracted c"
    and "cursor c = (first, second)"
    and "length (inds op) = 4"
    and "set (inds op) = {s_site c ! first, s_site c ! second,
                          prime (s_site c ! first), prime (s_site c ! second)}"
  shows "apply_op op c =
           Inr (c\<lparr>Psi := mult op (primeT_inds (Psi c) [s_site c ! first, s_site c ! second])\<rparr>)
         \<and> (Psi_has_sites c \<longrightarrow>
              set (inds (mult op (primeT_inds (Psi c) [s_site c ! first, s_site c ! second])))
                = set (inds (Psi c)))"
proof (intro conjI impI)
  from assms(1,2) have "first < length (s_site c)" "second < length (s_site c)"
    by (simp_all add: contracted_def)
  moreover from assms(4) have
    "list_all (\<lambda>elem. elem = s_site c ! first \<or> elem = s_site c ! second
                \<or> elem = prime (s_site c ! first) \<or> elem = prime (s_site c ! second)) (inds op)"
    by (auto simp: list_all_iff)
  ultimately show "apply_op op c =
           Inr (c\<lparr>Psi := mult op (primeT_inds (Psi c) [s_site c ! first, s_site c ! second])\<rparr>)"
    using assms(2,3) by (simp add: apply_op_def ebind_def vec_at_def)
next
  assume "Psi_has_sites c"
  with assms(2) have h: "s_site c ! first \<noteq> s_site c ! second"
      "s_site c ! first \<noteq> prime (s_site c ! second)"
      "s_site c ! second \<noteq> prime (s_site c ! first)"
      "s_site c ! first \<in> set (inds (Psi c))" "s_site c ! second \<in> set (inds (Psi c))"
      "prime (s_site c ! first) \<notin> set (inds (Psi c))"
      "prime (s_site c ! second) \<notin> set (inds (Psi c))"
    by (simp_all add: Psi_has_sites_def Let_def)
  have p: "set (inds (primeT_inds (Psi c) [s_site c ! first, s_site c ! second]))
             = (set (inds (Psi c)) - {s_site c ! first, s_site c ! second})
               \<union> {prime (s_site c ! first), prime (s_site c ! second)}"
    using h by (auto simp: inds_primeT_inds)
  show "set (inds (mult op (primeT_inds (Psi c) [s_site c ! first, s_site c ! second])))
          = set (inds (Psi c))"
    unfolding inds_mult set_append set_filter p assms(4) using h prime_neq by auto
qed

theorem apply_op_replaces_Psi_witness:
  "contracted chain_state \<and> cursor chain_state = (0, 1) \<and> length (inds chain_gate) = 4
   \<and> Psi_has_sites chain_state
   \<and> apply_op chain_gate chain_state =
       Inr (chain_state\<lparr>Psi := mult chain_gate
              (primeT_inds (Psi chain_state) [s_site chain_state ! 0, s_site chain_state ! 1])\<rparr>)
   \<and> set (inds (mult chain_gate
              (primeT_inds (Psi chain_state) [s_site chain_state ! 0, s_site chain_state ! 1])))
       = set (inds (Psi chain_state))"
  using apply_op_replaces_Psi [OF chain_state_ok(1,2) chain_gate_ok(1,2)] chain_state_ok chain_gate_ok
  by simp

section \<open>The gate Y\<close>

text \<open>
  C7, as the code has it.  \<open>Y s\<close> is a tensor over \<open>s\<close> and \<open>prime s\<close>.  Its element at
  \<open>s = r\<close>, \<open>prime s = c\<close> is \<open>+i\<close> for \<open>r = 2\<close>, \<open>c = 1\<close>, is \<open>-i\<close> for \<open>r = 1\<close>, \<open>c = 2\<close>, and
  is zero for every other \<open>r\<close> and \<open>c\<close>: reading the row from the unprimed index and the
  column from the primed one, the non-zero entries are \<open>(2,1) = +i\<close> and \<open>(1,2) = -i\<close>.
\<close>

theorem Y_entries:
  "inds (Y s) = [s, prime s]
   \<and> elt (Y s) [(s, r), (prime s, c)] =
       (if r = 2 \<and> c = 1 then \<i> else if r = 1 \<and> c = 2 then - \<i> else 0)"
  by (auto simp add: Y_def set_elt_def elt_def key_of_def val_of_def)

text \<open>
  C7, as the claim reads the entries (row from the primed index, column from the
  unprimed one): for a site index of dimension 2, the entry in row 2 and column 1 is the
  element at \<open>prime s = 2\<close>, \<open>s = 1\<close>, and it is \<open>-i\<close>, not \<open>+i\<close>.
\<close>

theorem Y_row_primed_counterexample:
  "elt (Y (Index 0 2 ''SiteInd'' 0))
       [(prime (Index 0 2 ''SiteInd'' 0), 2), (Index 0 2 ''SiteInd'' 0, 1)] = - \<i>
   \<and> elt (Y (Index 0 2 ''SiteInd'' 0))
       [(prime (Index 0 2 ''SiteInd'' 0), 2), (Index 0 2 ''SiteInd'' 0, 1)] \<noteq> \<i>"
  by (simp add: Y_def set_elt_def elt_def key_of_def val_of_def prime_def complex_eq_iff)

section \<open>The constructor\<close>

text \<open>
  C6, as the code has it.  The constructor does not compare the length of the amplitude
  list with the number of sites.  On a topology whose sites have one to three neighbours
  and whose links are within range, with at least as many amplitude pairs as sites (and
  site indices that are not supplied, or at least one per site), it returns a circuit,
  and the circuit is the one built from the first \<open>N\<close> pairs alone: pairs beyond the
  \<open>N\<close>-th are not read.
\<close>

theorem QCircuit_amplitudes_unchecked:
  assumes "wf_topology topo"
    and "numberOfBits topo \<le> length init_qbits"
    and "physical_indices = [] \<or> numberOfBits topo \<le> length physical_indices"
  shows "\<exists>c. QCircuit idgen topo init_qbits physical_indices = Inr c
           \<and> QCircuit idgen topo (take (numberOfBits topo) init_qbits) physical_indices = Inr c"
  using QCircuit_ok [OF assms, of idgen] by (auto simp: QCircuit_take)

theorem QCircuit_amplitudes_unchecked_witness:
  "wf_topology topo2
   \<and> numberOfBits topo2 \<le> length [(1, 0), (1, 0), (0, 1) :: complex \<times> complex]
   \<and> (\<exists>c. QCircuit 0 topo2 [(1, 0), (1, 0), (0, 1)] [] = Inr c
           \<and> QCircuit 0 topo2 (take (numberOfBits topo2) [(1, 0), (1, 0), (0, 1)]) [] = Inr c)"
proof -
  have n: "numberOfBits topo2 \<le> length [(1, 0), (1, 0), (0, 1) :: complex \<times> complex]"
    by (simp add: topo2_def)
  from QCircuit_amplitudes_unchecked [OF wf_examples(1) n, of "[]" 0] wf_examples(1) n
  show ?thesis
    by simp
qed

text \<open>
  C6, as the claim states it: on the topology of two sites a list of three amplitude
  pairs does not make the construction fail.  The constructor returns the circuit
  \<open>pair_init\<close>.
\<close>

theorem QCircuit_amplitudes_counterexample:
  "QCircuit 0 topo2 [(1, 0), (1, 0), (0, 1)] [] = Inr pair_init
   \<and> length [(1, 0), (1, 0), (0, 1) :: complex \<times> complex] \<noteq> numberOfBits topo2"
proof -
  have "length [(1, 0), (1, 0), (0, 1) :: complex \<times> complex] \<noteq> numberOfBits topo2"
    by (simp add: topo2_def)
  with pair_init_built [of "[(0, 1)]"] show ?thesis
    by blast
qed

text \<open>
  C10, as the code has it.  On a topology whose sites have one to three neighbours and
  whose links are within range, and with an amplitude pair for every site: a supplied
  list of site indices that is not empty and shorter than \<open>N\<close> makes the initialization
  loop read the vector \<open>s\<close> out of range, at the position that is the length of the list;
  a supplied list of \<open>N\<close> or more indices is taken as it is and the constructor returns;
  and with no list supplied the constructor returns with \<open>N\<close> site indices of its own.
\<close>

theorem QCircuit_physical_indices_unchecked:
  assumes "wf_topology topo"
    and "numberOfBits topo \<le> length init_qbits"
  shows "(physical_indices \<noteq> [] \<and> length physical_indices < numberOfBits topo \<longrightarrow>
            QCircuit idgen topo init_qbits physical_indices =
              Inl (OutOfRange ''s'' (length physical_indices)))
         \<and> (numberOfBits topo \<le> length physical_indices \<longrightarrow>
              (\<exists>c. QCircuit idgen topo init_qbits physical_indices = Inr c
                    \<and> s_site c = physical_indices))
         \<and> (\<exists>c. QCircuit idgen topo init_qbits [] = Inr c
                  \<and> length (s_site c) = numberOfBits topo)"
proof (intro conjI impI)
  assume "physical_indices \<noteq> [] \<and> length physical_indices < numberOfBits topo"
  then show "QCircuit idgen topo init_qbits physical_indices =
               Inl (OutOfRange ''s'' (length physical_indices))"
    using QCircuit_short [OF assms] by simp
next
  assume n: "numberOfBits topo \<le> length physical_indices"
  moreover from assms(1) have "2 \<le> numberOfBits topo"
    by (simp add: wf_topology_def)
  ultimately have "physical_indices \<noteq> []"
    by auto
  with QCircuit_ok [OF assms, of physical_indices idgen] n
  show "\<exists>c. QCircuit idgen topo init_qbits physical_indices = Inr c \<and> s_site c = physical_indices"
    by auto
next
  from QCircuit_ok [OF assms, of "[]" idgen]
  show "\<exists>c. QCircuit idgen topo init_qbits [] = Inr c \<and> length (s_site c) = numberOfBits topo"
    by auto
qed

theorem QCircuit_physical_indices_unchecked_witness:
  "wf_topology chain4
   \<and> numberOfBits chain4 \<le> length [(1, 0), (1, 0), (0, 1), (1, 0) :: complex \<times> complex]
   \<and> QCircuit 0 chain4 [(1, 0), (1, 0), (0, 1), (1, 0)] [Index 3 2 ''SiteInd'' 0] =
       Inl (OutOfRange ''s'' 1)
   \<and> (\<exists>c. QCircuit 0 chain4 [(1, 0), (1, 0), (0, 1), (1, 0)] (s_site chain_state) = Inr c
           \<and> s_site c = s_site chain_state)
   \<and> (\<exists>c. QCircuit 0 chain4 [(1, 0), (1, 0), (0, 1), (1, 0)] [] = Inr c
           \<and> length (s_site c) = numberOfBits chain4)"
proof -
  have n: "numberOfBits chain4 \<le> length [(1, 0), (1, 0), (0, 1), (1, 0) :: complex \<times> complex]"
    by (simp add: chain4_def)
  have l: "[Index 3 2 ''SiteInd'' 0] \<noteq> []" "length [Index 3 2 ''SiteInd'' 0] < numberOfBits chain4"
    "numberOfBits chain4 \<le> length (s_site chain_state)"
    by (simp_all add: chain4_def chain_state_def)
  from QCircuit_physical_indices_unchecked [OF wf_examples(2) n, of "[Index 3 2 ''SiteInd'' 0]" 0]
    QCircuit_physical_indices_unchecked [OF wf_examples(2) n, of "s_site chain_state" 0]
    wf_examples(2) n l
  show ?thesis
    by simp
qed

text \<open>
  C10, as the claim states it: a list of exactly \<open>N\<close> indices is not the only non-empty
  list that is safe.  On the topology of two sites the constructor takes a list of three
  site indices as it is, reads the first two and returns.
\<close>

theorem QCircuit_physical_indices_counterexample:
  "QCircuit 0 topo2 [(1, 0), (1, 0)]
     [Index 1 2 ''SiteInd'' 0, Index 2 2 ''SiteInd'' 0, Index 9 2 ''SiteInd'' 0] =
   Inr (pair_init\<lparr>s_site := [Index 1 2 ''SiteInd'' 0, Index 2 2 ''SiteInd'' 0,
                                Index 9 2 ''SiteInd'' 0]\<rparr>)
   \<and> length [Index 1 2 ''SiteInd'' 0, Index 2 2 ''SiteInd'' 0, Index 9 2 ''SiteInd'' 0]
       \<noteq> numberOfBits topo2"
proof -
  have "length [Index 1 2 ''SiteInd'' 0, Index 2 2 ''SiteInd'' 0, Index 9 2 ''SiteInd'' 0]
          \<noteq> numberOfBits topo2"
    by (simp add: topo2_def)
  with pair_init_longer show ?thesis
    by blast
qed

section \<open>overlap\<close>

subsection \<open>The elements of a product\<close>














lemma elt_divT: "elt (divT T r) ivs = elt T ivs / of_real r"
proof -
  have h: "map_of (map (\<lambda>kv. (fst kv, snd kv / of_real r)) xs) k = map_option (\<lambda>z. z / of_real r) (map_of xs k)"
    for xs :: "(nat list \<times> complex) list" and k
    by (induction xs) auto
  show ?thesis
    by (simp add: elt_def divT_def key_of_def h split: option.split)
qed

























subsection \<open>The contraction chain of overlap on two sites\<close>















subsection \<open>One site of the chain\<close>




















subsection \<open>The first two sites of a longer chain\<close>






subsection \<open>The chains of three and of four sites\<close>



lemma chain3_amplitude:
  "elt (Psi chain3_state)
     [(Index 2 2 ''SiteInd'' 0, 1), (Index 3 2 ''SiteInd'' 0, 1), (Index 1 1 ''LinkInd'' 0, 1)] = 1 / 2"
  "elt (Psi chain3_unit)
     [(Index 2 2 ''SiteInd'' 0, 1), (Index 3 2 ''SiteInd'' 0, 1), (Index 1 1 ''LinkInd'' 0, 1)] = 1"
  by code_simp+

lemma svd_chain3_exact:
  "svd_chain3 (Psi chain3_state) U0 S0 V0 args =
     (chain3_U, chain3_S (1 / 2), chain3_V, \<lparr>truncerr = 0, eigsKept = [1 / 4]\<rparr>)"
  "mult (mult chain3_U (chain3_S (1 / 2))) chain3_V = Psi chain3_state"
  "svd_chain3 (Psi chain3_unit) U0 S0 V0 args =
     (chain3_U, chain3_S 1, chain3_V, \<lparr>truncerr = 0, eigsKept = [1]\<rparr>)"
  "mult (mult chain3_U (chain3_S 1)) chain3_V = Psi chain3_unit"
proof -
  show "svd_chain3 (Psi chain3_state) U0 S0 V0 args =
     (chain3_U, chain3_S (1 / 2), chain3_V, \<lparr>truncerr = 0, eigsKept = [1 / 4]\<rparr>)"
    unfolding svd_chain3_def Let_def chain3_amplitude by (simp add: power_divide norm_divide)
  show "svd_chain3 (Psi chain3_unit) U0 S0 V0 args =
     (chain3_U, chain3_S 1, chain3_V, \<lparr>truncerr = 0, eigsKept = [1]\<rparr>)"
    unfolding svd_chain3_def Let_def chain3_amplitude by simp
  show "mult (mult chain3_U (chain3_S (1 / 2))) chain3_V = Psi chain3_state"
    "mult (mult chain3_U (chain3_S 1)) chain3_V = Psi chain3_unit"
    by code_simp+
qed






lemma line4_state_built:
  "QCircuit 0 line4 [(1, 0), (1, 0), (3 / 5, 4 / 5), (0, 1)]
     [Index 2 2 ''SiteInd'' 0, Index 3 2 ''SiteInd'' 0, Index 4 2 ''SiteInd'' 0, Index 5 2 ''SiteInd'' 0]
   = Inr line4_state"
  unfolding line4_state_def by (rule QCircuit_eval) code_simp+




subsection \<open>The self-overlap under identity gates\<close>




end
